theory Spec2Isabelle
  imports Complex_Main
begin

section \<open>Floppy Bird: the simulation core of \<^verbatim>\<open>src/script.js\<close>\<close>

text \<open>
  The script keeps its whole state in variables of one closure and mutates them from
  event handlers and from the animation-frame callback \<^verbatim>\<open>loop\<close>. The model below
  is a shallow embedding with explicit state passing: the closure's variables are the
  fields of the record \<open>game\<close>, every handler is a function from \<open>game\<close> to \<open>game\<close>, and
  what a handler reads from the environment (the clock \<^verbatim>\<open>performance.now()\<close>, the frame
  timestamp, \<^verbatim>\<open>canvas.clientWidth/clientHeight\<close>, \<^verbatim>\<open>Math.random()\<close>) is an argument.

  JavaScript numbers are modelled as mathematical reals (the counters \<open>score\<close> and \<open>best\<close>
  and the integer-valued DOM properties \<^verbatim>\<open>clientWidth\<close>, \<^verbatim>\<open>clientHeight\<close> as integers);
  rounding of doubles is not modelled. Drawing, sound and the scheduling of animation
  frames are not modelled: a frame is an event the environment may deliver.
\<close>

subsection \<open>Constants (lines 33-41)\<close>

definition GRAVITY :: real where "GRAVITY = 1100"
definition FLAP_VY :: real where "FLAP_VY = - 350"
definition PIPE_GAP :: int where "PIPE_GAP = 140"
definition PIPE_W :: real where "PIPE_W = 60"
definition PIPE_INTERVAL :: real where "PIPE_INTERVAL = 1400"
definition PIPE_SPEED :: real where "PIPE_SPEED = 180"
definition BIRD_X :: real where "BIRD_X = 120"
definition MAX_ROT :: real where "MAX_ROT = pi / 6"
definition MIN_ROT :: real where "MIN_ROT = - pi / 2.6"

subsection \<open>State (lines 44-54, 76-83, 100-105)\<close>

text \<open>The object literal built in \<^verbatim>\<open>reset\<close>: fields \<^verbatim>\<open>x, y, vy, radius, rot, alive\<close>.\<close>

record Bird =
  bird_x :: real
  bird_y :: real
  bird_vy :: real
  bird_radius :: real
  bird_rot :: real
  bird_alive :: bool

text \<open>The object literal built in \<^verbatim>\<open>spawnPipe\<close>: fields \<^verbatim>\<open>x, top, bottom, passed\<close>.\<close>

record Pipe =
  pipe_x :: real
  pipe_top :: real
  pipe_bottom :: real
  pipe_passed :: bool

text \<open>
  The closure's variables. \<open>storedBest\<close> is the \<^verbatim>\<open>floppy_best\<close> entry of localStorage;
  \<open>endScore\<close>, \<open>endBest\<close> and \<open>endTitle\<close> are what \<^verbatim>\<open>endGame\<close> writes into the game-over
  panel (the numbers shown, and the title string).
\<close>

record game =
  width :: int
  height :: int
  bird :: Bird
  pipes :: "Pipe list"
  spawnTimer :: real
  running :: bool
  lastTime :: real
  score :: int
  best :: int
  paused :: bool
  storedBest :: int
  endScore :: int
  endBest :: int
  endTitle :: string

subsection \<open>Helpers (lines 352-354, 413-414)\<close>

text \<open>\<^verbatim>\<open>Math.max(34, Math.round(canvas.clientHeight * 0.12))\<close>; \<^verbatim>\<open>Math.round\<close> rounds
  halves upwards, as \<^const>\<open>round\<close> does.\<close>

definition groundHeight :: "int \<Rightarrow> int" where
  "groundHeight clientHeight = max 34 (round (real_of_int clientHeight * 0.12))"

definition clamp :: "real \<Rightarrow> real \<Rightarrow> real \<Rightarrow> real" where
  "clamp v a b = max a (min b v)"

definition map_fn :: "real \<Rightarrow> real \<Rightarrow> real \<Rightarrow> real \<Rightarrow> real \<Rightarrow> real" where
  "map_fn v a b A B = A + (v - a) * (B - A) / (b - a)"

subsection \<open>\<^verbatim>\<open>reset\<close> (lines 73-93)\<close>

definition reset :: "int \<Rightarrow> int \<Rightarrow> real \<Rightarrow> game \<Rightarrow> game" where
  "reset clientWidth clientHeight tnow g =
     g\<lparr> width := clientWidth,
        height := clientHeight,
        bird := \<lparr> bird_x = BIRD_X,
                  bird_y = of_int \<lfloor>real_of_int clientHeight / 2\<rfloor>,
                  bird_vy = 0,
                  bird_radius = 18,
                  bird_rot = 0,
                  bird_alive = True \<rparr>,
        pipes := [],
        spawnTimer := 0,
        score := 0,
        running := False,
        lastTime := tnow \<rparr>"

text \<open>
  The state once the script has run to its end: the variable initialisers of lines 44-54
  (with \<open>best\<close> read from storage) followed by the call \<^verbatim>\<open>reset()\<close> of line 417. No
  handler can run before that call, so \<^verbatim>\<open>bird\<close> is never \<^verbatim>\<open>null\<close> in a handler.
\<close>

definition startup :: "int \<Rightarrow> int \<Rightarrow> int \<Rightarrow> real \<Rightarrow> game" where
  "startup stored clientWidth clientHeight tnow =
     reset clientWidth clientHeight tnow
       \<lparr> width = clientWidth, height = clientHeight,
         bird = \<lparr> bird_x = BIRD_X, bird_y = 0, bird_vy = 0, bird_radius = 18,
                  bird_rot = 0, bird_alive = True \<rparr>,
         pipes = [], spawnTimer = 0, running = False, lastTime = 0, score = 0,
         best = stored, paused = False, storedBest = stored,
         endScore = 0, endBest = 0, endTitle = [] \<rparr>"

subsection \<open>\<^verbatim>\<open>spawnPipe\<close> (lines 96-107)\<close>

text \<open>\<open>u\<close> is the value of \<^verbatim>\<open>Math.random()\<close>, a number in \<open>[0, 1)\<close>.\<close>

definition spawnPipe :: "real \<Rightarrow> game \<Rightarrow> game" where
  "spawnPipe u g =
     (let minTop = 48;
          maxTop = height g - PIPE_GAP - 120;
          top = \<lfloor>u * real_of_int (maxTop - minTop + 1)\<rfloor> + minTop;
          pipe = \<lparr> pipe_x = real_of_int (width g + 20),
                   pipe_top = real_of_int top,
                   pipe_bottom = real_of_int (top + PIPE_GAP),
                   pipe_passed = False \<rparr>
      in g\<lparr> pipes := pipes g @ [pipe] \<rparr>)"

subsection \<open>Input handlers (lines 110-159, 421)\<close>

definition doFlap :: "real \<Rightarrow> game \<Rightarrow> game" where
  "doFlap tnow g =
     (let g1 = (if \<not> running g then g\<lparr> running := True, lastTime := tnow \<rparr> else g)
      in if \<not> bird_alive (bird g1) then g1
         else g1\<lparr> bird := (bird g1)\<lparr> bird_vy := FLAP_VY, bird_rot := MAX_ROT \<rparr> \<rparr>)"

text \<open>The \<^verbatim>\<open>p\<close> key.\<close>

definition togglePause :: "real \<Rightarrow> game \<Rightarrow> game" where
  "togglePause tnow g =
     (let g1 = g\<lparr> paused := \<not> paused g \<rparr>
      in if \<not> paused g1 \<and> running g1 then g1\<lparr> lastTime := tnow \<rparr> else g1)"

text \<open>The READY button, and \<^verbatim>\<open>window.FLOPPY.start\<close>.\<close>

definition readyClick :: "real \<Rightarrow> game \<Rightarrow> game" where
  "readyClick tnow g = g\<lparr> running := False, lastTime := tnow \<rparr>"

definition start :: "real \<Rightarrow> game \<Rightarrow> game" where
  "start tnow g = g\<lparr> running := True, lastTime := tnow \<rparr>"

subsection \<open>\<^verbatim>\<open>collidePipe\<close> (lines 168-179)\<close>

definition collidePipe :: "Bird \<Rightarrow> Pipe \<Rightarrow> bool" where
  "collidePipe b pipe =
     (let bx = bird_x b; by' = bird_y b; r = bird_radius b;
          inX = (bx + r > pipe_x pipe \<and> bx - r < pipe_x pipe + PIPE_W)
      in if \<not> inX then False
         else if by' - r < pipe_top pipe then True
         else if by' + r > pipe_bottom pipe then True
         else False)"

subsection \<open>\<^verbatim>\<open>endGame\<close> (lines 256-271)\<close>

definition endGame :: "game \<Rightarrow> game" where
  "endGame g =
     (let g1 = g\<lparr> running := False \<rparr>;
          g2 = (if score g1 > best g1
                then g1\<lparr> best := score g1, storedBest := score g1 \<rparr> else g1)
      in g2\<lparr> endScore := score g2,
             endBest := best g2,
             endTitle := (if score g2 > best g2 then ''New High Score!''
                          else ''Game Over'') \<rparr>)"

subsection \<open>\<^verbatim>\<open>loop\<close> (lines 182-253)\<close>

text \<open>Lines 194-199: gravity, position, rotation smoothing.\<close>

definition birdPhysics :: "real \<Rightarrow> Bird \<Rightarrow> Bird" where
  "birdPhysics dt b =
     (let b1 = b\<lparr> bird_vy := bird_vy b + GRAVITY * dt \<rparr>;
          b2 = b1\<lparr> bird_y := bird_y b1 + bird_vy b1 * dt \<rparr>;
          targetRot = clamp (map_fn (bird_vy b2) (- 400) 600 MAX_ROT MIN_ROT) MIN_ROT MAX_ROT
      in b2\<lparr> bird_rot := bird_rot b2 + (targetRot - bird_rot b2) * min 1 (dt * 8) \<rparr>)"

text \<open>Lines 202-206: the spawn timer.\<close>

definition spawnStep :: "real \<Rightarrow> real \<Rightarrow> game \<Rightarrow> game" where
  "spawnStep dt u g =
     (let g1 = g\<lparr> spawnTimer := spawnTimer g + dt * 1000 \<rparr>
      in if spawnTimer g1 \<ge> PIPE_INTERVAL then spawnPipe u (g1\<lparr> spawnTimer := 0 \<rparr>)
         else g1)"

text \<open>
  Lines 209-221: the loop \<^verbatim>\<open>for (let i = pipes.length - 1; i >= 0; i--)\<close>. The first
  argument counts the indices still to visit, so \<open>Suc i\<close> stands for the loop variable
  \<open>i\<close>; the pair is the array \<^verbatim>\<open>pipes\<close> and the counter \<^verbatim>\<open>score\<close>.
  \<^verbatim>\<open>pipes.splice(i, 1)\<close> removes the element at index \<open>i\<close>. The index is always in
  range: a removal at \<open>i\<close> leaves the elements below \<open>i\<close> in place.
\<close>

fun pipeLoop :: "real \<Rightarrow> real \<Rightarrow> nat \<Rightarrow> Pipe list \<times> int \<Rightarrow> Pipe list \<times> int" where
  "pipeLoop dt birdx 0 (ps, sc) = (ps, sc)"
| "pipeLoop dt birdx (Suc i) (ps, sc) =
     (let p = ps ! i;
          p1 = p\<lparr> pipe_x := pipe_x p - PIPE_SPEED * dt \<rparr>;
          scored = (\<not> pipe_passed p1 \<and> pipe_x p1 + PIPE_W < birdx);
          p2 = (if scored then p1\<lparr> pipe_passed := True \<rparr> else p1);
          sc' = (if scored then sc + 1 else sc);
          ps1 = ps[i := p2];
          ps2 = (if pipe_x p2 + PIPE_W < - 40 then take i ps1 @ drop (Suc i) ps1 else ps1)
      in pipeLoop dt birdx i (ps2, sc'))"

definition movePipes :: "real \<Rightarrow> game \<Rightarrow> game" where
  "movePipes dt g =
     (case pipeLoop dt (bird_x (bird g)) (length (pipes g)) (pipes g, score g) of
        (ps, sc) \<Rightarrow> g\<lparr> pipes := ps, score := sc \<rparr>)"

text \<open>Lines 224-230: ground, then ceiling.\<close>

definition hitGround :: "int \<Rightarrow> game \<Rightarrow> bool" where
  "hitGround clientHeight g \<longleftrightarrow>
     bird_y (bird g) + bird_radius (bird g)
       > real_of_int (height g) - real_of_int (groundHeight clientHeight)"

definition boundsCheck :: "int \<Rightarrow> game \<Rightarrow> game" where
  "boundsCheck clientHeight g =
     (let g1 = (if hitGround clientHeight g
                then g\<lparr> bird := (bird g)\<lparr> bird_alive := False \<rparr> \<rparr> else g)
      in if bird_y (bird g1) - bird_radius (bird g1) < 0
         then g1\<lparr> bird := (bird g1)\<lparr> bird_y := bird_radius (bird g1), bird_vy := 0 \<rparr> \<rparr>
         else g1)"

text \<open>Lines 232-237: \<^verbatim>\<open>for (const p of pipes)\<close> with its \<^verbatim>\<open>break\<close>.\<close>

fun hitsAny :: "Bird \<Rightarrow> Pipe list \<Rightarrow> bool" where
  "hitsAny b [] = False"
| "hitsAny b (p # ps) = (if collidePipe b p then True else hitsAny b ps)"

definition pipeCheck :: "game \<Rightarrow> game" where
  "pipeCheck g =
     (if hitsAny (bird g) (pipes g)
      then g\<lparr> bird := (bird g)\<lparr> bird_alive := False \<rparr> \<rparr> else g)"

text \<open>Lines 240-243.\<close>

definition deathCheck :: "game \<Rightarrow> game" where
  "deathCheck g = (if \<not> bird_alive (bird g) then endGame g else g)"

text \<open>Lines 193-243, the body of \<^verbatim>\<open>if (running && bird.alive)\<close>.\<close>

definition update :: "real \<Rightarrow> int \<Rightarrow> real \<Rightarrow> game \<Rightarrow> game" where
  "update dt clientHeight u g =
     deathCheck (pipeCheck (boundsCheck clientHeight
       (movePipes dt (spawnStep dt u (g\<lparr> bird := birdPhysics dt (bird g) \<rparr>)))))"

text \<open>Line 188: the frame's time step, in seconds.\<close>

definition frameDelta :: "real \<Rightarrow> game \<Rightarrow> real" where
  "frameDelta now g = min 0.035 ((now - lastTime g) / 1000)"

text \<open>
  \<open>now\<close> is the frame timestamp, \<open>clientHeight\<close> what \<^verbatim>\<open>canvas.clientHeight\<close> reads during
  this frame (in \<^verbatim>\<open>groundHeight\<close>), \<open>u\<close> the value \<^verbatim>\<open>Math.random()\<close> would return.
\<close>

definition loop :: "real \<Rightarrow> int \<Rightarrow> real \<Rightarrow> game \<Rightarrow> game" where
  "loop now clientHeight u g =
     (if paused g then g\<lparr> lastTime := now \<rparr>
      else
        let dt = frameDelta now g;
            g1 = g\<lparr> lastTime := now \<rparr>
        in if running g1 \<and> bird_alive (bird g1) then update dt clientHeight u g1 else g1)"

subsection \<open>Runs\<close>

text \<open>What the environment can do to the game, with the values the handler reads.\<close>

datatype event =
    Flap real
  | Frame real int real
  | TogglePause real
  | Ready real
  | Retry int int real
  | Start real

fun step :: "event \<Rightarrow> game \<Rightarrow> game" where
  "step (Flap tnow) g = doFlap tnow g"
| "step (Frame now clientHeight u) g = loop now clientHeight u g"
| "step (TogglePause tnow) g = togglePause tnow g"
| "step (Ready tnow) g = readyClick tnow g"
| "step (Retry clientWidth clientHeight tnow) g = reset clientWidth clientHeight tnow g"
| "step (Start tnow) g = start tnow g"

fun run :: "event list \<Rightarrow> game \<Rightarrow> game" where
  "run [] g = g"
| "run (e # es) g = run es (step e g)"


subsection \<open>Notions used to state the properties\<close>

text \<open>
  The three tests of the pipe loop, named: the move of line 211, the scoring test of
  line 213, the removal test of line 220, and the effect of lines 213-215 on one pipe.
\<close>

definition shiftPipe :: "real \<Rightarrow> Pipe \<Rightarrow> Pipe" where
  "shiftPipe dt p = p\<lparr> pipe_x := pipe_x p - PIPE_SPEED * dt \<rparr>"

definition crossed :: "real \<Rightarrow> Pipe \<Rightarrow> bool" where
  "crossed birdx p \<longleftrightarrow> \<not> pipe_passed p \<and> pipe_x p + PIPE_W < birdx"

definition offscreen :: "Pipe \<Rightarrow> bool" where
  "offscreen p \<longleftrightarrow> pipe_x p + PIPE_W < - 40"

definition markPassed :: "real \<Rightarrow> Pipe \<Rightarrow> Pipe" where
  "markPassed birdx p = (if crossed birdx p then p\<lparr> pipe_passed := True \<rparr> else p)"

text \<open>The state of a frame after lines 194-221, before the collision tests.\<close>

definition moved :: "real \<Rightarrow> real \<Rightarrow> game \<Rightarrow> game" where
  "moved dt u g = movePipes dt (spawnStep dt u (g\<lparr> bird := birdPhysics dt (bird g) \<rparr>))"

text \<open>
  A state is settled when none of the tests a frame makes after integrating would fire
  on it as it stands: no spawn is due, no pipe is waiting to be scored or removed, the
  bird is neither in the ground band nor above the ceiling, and no pipe collides.
\<close>

definition settled :: "int \<Rightarrow> game \<Rightarrow> bool" where
  "settled clientHeight g \<longleftrightarrow>
     spawnTimer g < PIPE_INTERVAL
     \<and> list_all (\<lambda>p. \<not> crossed (bird_x (bird g)) p \<and> \<not> offscreen p) (pipes g)
     \<and> \<not> hitGround clientHeight g
     \<and> \<not> bird_y (bird g) - bird_radius (bird g) < 0
     \<and> \<not> hitsAny (bird g) (pipes g)"



subsection \<open>Concrete sessions\<close>

text \<open>
  A running session on a 320 by 480 playfield, three pipes scored, best record 2: one
  scored pipe behind the bird and one pipe ahead. The others vary the bird or the pipes.
\<close>

definition cruise :: game where
  "cruise =
     \<lparr> width = 320, height = 480,
       bird = \<lparr> bird_x = 120, bird_y = 240, bird_vy = 0, bird_radius = 18,
                bird_rot = 0, bird_alive = True \<rparr>,
       pipes = [\<lparr> pipe_x = - 2, pipe_top = 100, pipe_bottom = 240, pipe_passed = True \<rparr>,
                \<lparr> pipe_x = 250, pipe_top = 150, pipe_bottom = 290, pipe_passed = False \<rparr>],
       spawnTimer = 500, running = True, lastTime = 0, score = 3, best = 2,
       paused = False, storedBest = 2, endScore = 0, endBest = 0, endTitle = [] \<rparr>"

text \<open>Falling, 12 pixels above the ground band.\<close>

definition lowFlight :: game where
  "lowFlight = cruise\<lparr> bird := (bird cruise)\<lparr> bird_y := 410, bird_vy := 200 \<rparr> \<rparr>"

text \<open>Two unscored pipes about to cross the bird's position on the same frame.\<close>

definition twoCrossing :: game where
  "twoCrossing = cruise\<lparr> pipes :=
      [\<lparr> pipe_x = 57, pipe_top = 150, pipe_bottom = 290, pipe_passed = False \<rparr>,
       \<lparr> pipe_x = 59, pipe_top = 150, pipe_bottom = 290, pipe_passed = False \<rparr>,
       \<lparr> pipe_x = 250, pipe_top = 150, pipe_bottom = 290, pipe_passed = False \<rparr>] \<rparr>"

text \<open>In mid-air, level with the upper segment of a pipe at the bird's position.\<close>

definition pipeAhead :: game where
  "pipeAhead = cruise\<lparr> pipes :=
      [\<lparr> pipe_x = 120, pipe_top = 300, pipe_bottom = 440, pipe_passed = False \<rparr>] \<rparr>"

text \<open>Rising, 2 pixels below the ceiling; then the same with a pipe at the bird's position.\<close>

definition nearCeiling :: game where
  "nearCeiling = cruise\<lparr> bird := (bird cruise)\<lparr> bird_y := 20, bird_vy := - 350 \<rparr> \<rparr>"

definition ceilingOverPipe :: game where
  "ceilingOverPipe = nearCeiling\<lparr> pipes :=
      [\<lparr> pipe_x = 120, pipe_top = 100, pipe_bottom = 240, pipe_passed = False \<rparr>] \<rparr>"


section \<open>Properties\<close>

subsection \<open>The pipe loop visits every pipe once\<close>

lemma offscreen_markPassed [simp]: "offscreen (markPassed bx p) = offscreen p"
  by (simp add: offscreen_def markPassed_def)

lemma pipeLoop_Suc:
  assumes "i < length ps"
  shows "pipeLoop dt bx (Suc i) (ps, sc) =
     pipeLoop dt bx i
       (take i ps @ (if offscreen (shiftPipe dt (ps ! i)) then []
                     else [markPassed bx (shiftPipe dt (ps ! i))]) @ drop (Suc i) ps,
        sc + (if crossed bx (shiftPipe dt (ps ! i)) then 1 else 0))"
  using assms
  by (simp add: Let_def shiftPipe_def crossed_def offscreen_def markPassed_def
      upd_conv_take_nth_drop)

text \<open>
  Run from index \<open>n - 1\<close> down to 0, the loop moves, scores and filters the first \<open>n\<close>
  pipes, keeping their order, and leaves the pipes from index \<open>n\<close> on untouched.
\<close>

lemma pipeLoop_take:
  "n \<le> length ps \<Longrightarrow>
   pipeLoop dt bx n (ps, sc) =
     (filter (\<lambda>p. \<not> offscreen p) (map (\<lambda>p. markPassed bx (shiftPipe dt p)) (take n ps))
        @ drop n ps,
      sc + int (length (filter (crossed bx) (map (shiftPipe dt) (take n ps)))))"
proof (induction n arbitrary: ps sc)
  case 0
  then show ?case by simp
next
  case (Suc n)
  then have lt: "n < length ps" by simp
  let ?q = "shiftPipe dt (ps ! n)"
  let ?mid = "if offscreen ?q then [] else [markPassed bx ?q]"
  let ?ps2 = "take n ps @ ?mid @ drop (Suc n) ps"
  have len: "n \<le> length ?ps2" using lt by simp
  have tk: "take n ?ps2 = take n ps" using lt by simp
  have dr: "drop n ?ps2 = ?mid @ drop (Suc n) ps" using lt by simp
  have ts: "take (Suc n) ps = take n ps @ [ps ! n]"
    using lt by (simp add: take_Suc_conv_app_nth)
  show ?case
    unfolding pipeLoop_Suc[OF lt] Suc.IH[OF len] tk dr ts
    by simp
qed

lemma pipeLoop_all:
  "pipeLoop dt bx (length ps) (ps, sc) =
     (filter (\<lambda>p. \<not> offscreen p) (map (\<lambda>p. markPassed bx (shiftPipe dt p)) ps),
      sc + int (length (filter (crossed bx) (map (shiftPipe dt) ps))))"
  using pipeLoop_take[of "length ps" ps dt bx sc] by simp

subsection \<open>What each part of a frame changes\<close>

lemma spawnPipe_fields [simp]:
  "bird (spawnPipe u g) = bird g" "score (spawnPipe u g) = score g"
  "best (spawnPipe u g) = best g" "running (spawnPipe u g) = running g"
  "height (spawnPipe u g) = height g" "spawnTimer (spawnPipe u g) = spawnTimer g"
  "lastTime (spawnPipe u g) = lastTime g"
  by (simp_all add: spawnPipe_def Let_def)

lemma spawnStep_fields [simp]:
  "bird (spawnStep dt u g) = bird g" "score (spawnStep dt u g) = score g"
  "best (spawnStep dt u g) = best g" "running (spawnStep dt u g) = running g"
  "height (spawnStep dt u g) = height g" "lastTime (spawnStep dt u g) = lastTime g"
  by (simp_all add: spawnStep_def Let_def)

lemma spawnStep_pipes_lastTime:
  "pipes (spawnStep dt u (g\<lparr> lastTime := t \<rparr>)) = pipes (spawnStep dt u g)"
  by (simp add: spawnStep_def spawnPipe_def Let_def)

lemma spawnStep_pipes_bird:
  "pipes (spawnStep dt u (g\<lparr> bird := b \<rparr>)) = pipes (spawnStep dt u g)"
  by (simp add: spawnStep_def spawnPipe_def Let_def)

lemma movePipes_fields [simp]:
  "bird (movePipes dt g) = bird g" "best (movePipes dt g) = best g"
  "running (movePipes dt g) = running g" "height (movePipes dt g) = height g"
  "spawnTimer (movePipes dt g) = spawnTimer g" "lastTime (movePipes dt g) = lastTime g"
  by (simp_all add: movePipes_def split: prod.split)

lemma movePipes_pipes:
  "pipes (movePipes dt g) =
     filter (\<lambda>p. \<not> offscreen p)
       (map (\<lambda>p. markPassed (bird_x (bird g)) (shiftPipe dt p)) (pipes g))"
  by (simp add: movePipes_def pipeLoop_all)

lemma movePipes_score:
  "score (movePipes dt g) =
     score g + int (length (filter (crossed (bird_x (bird g))) (map (shiftPipe dt) (pipes g))))"
  by (simp add: movePipes_def pipeLoop_all)

lemma boundsCheck_fields [simp]:
  "pipes (boundsCheck ch g) = pipes g" "score (boundsCheck ch g) = score g"
  "best (boundsCheck ch g) = best g" "running (boundsCheck ch g) = running g"
  "height (boundsCheck ch g) = height g" "spawnTimer (boundsCheck ch g) = spawnTimer g"
  "lastTime (boundsCheck ch g) = lastTime g"
  by (simp_all add: boundsCheck_def Let_def)

lemma boundsCheck_bird [simp]:
  "bird_x (bird (boundsCheck ch g)) = bird_x (bird g)"
  "bird_radius (bird (boundsCheck ch g)) = bird_radius (bird g)"
  "bird_rot (bird (boundsCheck ch g)) = bird_rot (bird g)"
  by (simp_all add: boundsCheck_def Let_def)

lemma boundsCheck_alive:
  "bird_alive (bird (boundsCheck ch g)) \<longleftrightarrow> bird_alive (bird g) \<and> \<not> hitGround ch g"
  by (simp add: boundsCheck_def Let_def)

lemma boundsCheck_y:
  "bird_y (bird (boundsCheck ch g)) =
     (if bird_y (bird g) - bird_radius (bird g) < 0 then bird_radius (bird g) else bird_y (bird g))"
  by (simp add: boundsCheck_def Let_def)

lemma boundsCheck_vy:
  "bird_vy (bird (boundsCheck ch g)) =
     (if bird_y (bird g) - bird_radius (bird g) < 0 then 0 else bird_vy (bird g))"
  by (simp add: boundsCheck_def Let_def)

lemma boundsCheck_id:
  "\<not> hitGround ch g \<Longrightarrow> \<not> bird_y (bird g) - bird_radius (bird g) < 0 \<Longrightarrow> boundsCheck ch g = g"
  by (simp add: boundsCheck_def)

lemma hitsAny_iff: "hitsAny b ps \<longleftrightarrow> (\<exists>p \<in> set ps. collidePipe b p)"
  by (induction ps) auto

lemma collidePipe_alive [simp]: "collidePipe (b\<lparr> bird_alive := a \<rparr>) p = collidePipe b p"
  by (simp add: collidePipe_def)

lemma hitsAny_alive [simp]: "hitsAny (b\<lparr> bird_alive := a \<rparr>) ps = hitsAny b ps"
  by (simp add: hitsAny_iff)

lemma pipeCheck_fields [simp]:
  "pipes (pipeCheck g) = pipes g" "score (pipeCheck g) = score g"
  "best (pipeCheck g) = best g" "running (pipeCheck g) = running g"
  "height (pipeCheck g) = height g" "spawnTimer (pipeCheck g) = spawnTimer g"
  "lastTime (pipeCheck g) = lastTime g"
  by (simp_all add: pipeCheck_def)

lemma pipeCheck_bird [simp]:
  "bird_x (bird (pipeCheck g)) = bird_x (bird g)"
  "bird_y (bird (pipeCheck g)) = bird_y (bird g)"
  "bird_vy (bird (pipeCheck g)) = bird_vy (bird g)"
  "bird_radius (bird (pipeCheck g)) = bird_radius (bird g)"
  "bird_rot (bird (pipeCheck g)) = bird_rot (bird g)"
  by (simp_all add: pipeCheck_def)

lemma pipeCheck_alive:
  "bird_alive (bird (pipeCheck g)) \<longleftrightarrow> bird_alive (bird g) \<and> \<not> hitsAny (bird g) (pipes g)"
  by (simp add: pipeCheck_def)

lemma pipeCheck_hitsAny [simp]: "hitsAny (bird (pipeCheck g)) ps = hitsAny (bird g) ps"
  by (simp add: pipeCheck_def)

lemma endGame_fields [simp]:
  "bird (endGame g) = bird g" "pipes (endGame g) = pipes g" "score (endGame g) = score g"
  "height (endGame g) = height g" "spawnTimer (endGame g) = spawnTimer g"
  "lastTime (endGame g) = lastTime g"
  "running (endGame g) = False" "best (endGame g) = max (best g) (score g)"
  by (simp_all add: endGame_def Let_def)

lemma deathCheck_fields [simp]:
  "bird (deathCheck g) = bird g" "pipes (deathCheck g) = pipes g"
  "score (deathCheck g) = score g" "height (deathCheck g) = height g"
  "spawnTimer (deathCheck g) = spawnTimer g" "lastTime (deathCheck g) = lastTime g"
  by (simp_all add: deathCheck_def)

lemma deathCheck_running:
  "running (deathCheck g) \<longleftrightarrow> running g \<and> bird_alive (bird g)"
  by (simp add: deathCheck_def)

lemma birdPhysics_fields [simp]:
  "bird_x (birdPhysics dt b) = bird_x b" "bird_radius (birdPhysics dt b) = bird_radius b"
  "bird_alive (birdPhysics dt b) = bird_alive b"
  "bird_vy (birdPhysics dt b) = bird_vy b + GRAVITY * dt"
  "bird_y (birdPhysics dt b) = bird_y b + (bird_vy b + GRAVITY * dt) * dt"
  by (simp_all add: birdPhysics_def Let_def)

subsection \<open>A frame as a whole\<close>

lemma update_moved: "update dt ch u g = deathCheck (pipeCheck (boundsCheck ch (moved dt u g)))"
  by (simp add: update_def moved_def)

lemma moved_fields [simp]:
  "bird (moved dt u g) = birdPhysics dt (bird g)"
  "height (moved dt u g) = height g" "running (moved dt u g) = running g"
  "best (moved dt u g) = best g" "lastTime (moved dt u g) = lastTime g"
  by (simp_all add: moved_def)

lemma hitGround_moved:
  "hitGround ch (moved dt u g) \<longleftrightarrow>
     bird_y (birdPhysics dt (bird g)) + bird_radius (bird g)
       > real_of_int (height g) - real_of_int (groundHeight ch)"
  by (simp add: hitGround_def)

lemma update_pipes:
  "pipes (update dt ch u g) =
     filter (\<lambda>p. \<not> offscreen p)
       (map (\<lambda>p. markPassed (bird_x (bird g)) (shiftPipe dt p)) (pipes (spawnStep dt u g)))"
  by (simp add: update_def movePipes_pipes spawnStep_pipes_bird)

lemma update_score:
  "score (update dt ch u g) =
     score g + int (length (filter (crossed (bird_x (bird g)))
                              (map (shiftPipe dt) (pipes (spawnStep dt u g)))))"
  by (simp add: update_def movePipes_score spawnStep_pipes_bird)

lemma update_alive:
  "bird_alive (bird (update dt ch u g)) \<longleftrightarrow>
     bird_alive (bird g) \<and> \<not> hitGround ch (moved dt u g)
     \<and> \<not> hitsAny (bird (update dt ch u g)) (pipes (update dt ch u g))"
  by (auto simp: update_moved pipeCheck_alive boundsCheck_alive)

lemma update_running:
  "running (update dt ch u g) \<longleftrightarrow> running g \<and> bird_alive (bird (update dt ch u g))"
  by (simp add: update_moved deathCheck_running)

lemma update_y:
  "bird_y (bird (update dt ch u g)) =
     (if bird_y (birdPhysics dt (bird g)) - bird_radius (bird g) < 0 then bird_radius (bird g)
      else bird_y (birdPhysics dt (bird g)))"
  by (simp add: update_moved boundsCheck_y del: birdPhysics_fields(5))

lemma update_vy:
  "bird_vy (bird (update dt ch u g)) =
     (if bird_y (birdPhysics dt (bird g)) - bird_radius (bird g) < 0 then 0
      else bird_vy (birdPhysics dt (bird g)))"
  by (simp add: update_moved boundsCheck_vy del: birdPhysics_fields(4,5))

lemma update_fields [simp]:
  "bird_radius (bird (update dt ch u g)) = bird_radius (bird g)"
  "bird_x (bird (update dt ch u g)) = bird_x (bird g)"
  "bird_rot (bird (update dt ch u g)) = bird_rot (birdPhysics dt (bird g))"
  "height (update dt ch u g) = height g"
  "lastTime (update dt ch u g) = lastTime g"
  by (simp_all add: update_moved)

lemma update_best:
  "best (update dt ch u g) =
     (if bird_alive (bird (update dt ch u g)) then best g
      else max (best g) (score (update dt ch u g)))"
  by (simp add: update_moved deathCheck_def)

text \<open>The two shapes of a frame: it integrates, or it only records the timestamp.\<close>

lemma loop_updates:
  "running g \<Longrightarrow> bird_alive (bird g) \<Longrightarrow> \<not> paused g \<Longrightarrow>
   loop now ch u g = update (frameDelta now g) ch u (g\<lparr> lastTime := now \<rparr>)"
  by (simp add: loop_def Let_def)

lemma loop_idle:
  "paused g \<or> \<not> running g \<or> \<not> bird_alive (bird g) \<Longrightarrow> loop now ch u g = g\<lparr> lastTime := now \<rparr>"
  by (auto simp: loop_def Let_def)

lemma loop_lastTime [simp]: "lastTime (loop now ch u g) = now"
  by (simp add: loop_def Let_def)

lemma loop_x_radius:
  "bird_x (bird (loop now ch u g)) = bird_x (bird g)"
  "bird_radius (bird (loop now ch u g)) = bird_radius (bird g)"
  by (simp_all add: loop_def Let_def)

lemma loop_alive_iff:
  assumes "running g" and "bird_alive (bird g)" and "\<not> paused g"
  shows "\<not> bird_alive (bird (loop now ch u g)) \<longleftrightarrow>
            bird_y (birdPhysics (frameDelta now g) (bird g)) + bird_radius (bird g)
              > real_of_int (height g) - real_of_int (groundHeight ch)
            \<or> hitsAny (bird (loop now ch u g)) (pipes (loop now ch u g))"
proof -
  let ?g1 = "g\<lparr> lastTime := now \<rparr>"
  have l: "loop now ch u g = update (frameDelta now g) ch u ?g1"
    using assms by (rule loop_updates)
  show ?thesis
    unfolding l using assms(2) update_alive[of "frameDelta now g" ch u ?g1]
    by (simp add: hitGround_moved del: birdPhysics_fields)
qed

lemma loop_running_iff:
  assumes "running g" and "bird_alive (bird g)" and "\<not> paused g"
  shows "running (loop now ch u g) \<longleftrightarrow> bird_alive (bird (loop now ch u g))"
  using assms by (simp add: loop_updates update_running)

lemma loop_y:
  assumes "running g" and "bird_alive (bird g)" and "\<not> paused g"
  shows "bird_y (bird (loop now ch u g)) =
     (if bird_y (birdPhysics (frameDelta now g) (bird g)) - bird_radius (bird g) < 0
      then bird_radius (bird g) else bird_y (birdPhysics (frameDelta now g) (bird g)))"
  using assms by (simp add: loop_updates update_y del: birdPhysics_fields)

lemma loop_vy:
  assumes "running g" and "bird_alive (bird g)" and "\<not> paused g"
  shows "bird_vy (bird (loop now ch u g)) =
     (if bird_y (birdPhysics (frameDelta now g) (bird g)) - bird_radius (bird g) < 0
      then 0 else bird_vy (birdPhysics (frameDelta now g) (bird g)))"
  using assms by (simp add: loop_updates update_vy del: birdPhysics_fields)

lemma loop_pipes:
  assumes "running g" and "bird_alive (bird g)" and "\<not> paused g"
  shows "pipes (loop now ch u g) =
           filter (\<lambda>p. \<not> offscreen p)
             (map (\<lambda>p. markPassed (bird_x (bird g)) (shiftPipe (frameDelta now g) p))
                (pipes (spawnStep (frameDelta now g) u g)))"
  using assms by (simp add: loop_updates update_pipes spawnStep_pipes_lastTime)

lemma loop_score:
  assumes "running g" and "bird_alive (bird g)" and "\<not> paused g"
  shows "score (loop now ch u g) =
           score g + int (length (filter (crossed (bird_x (bird g)))
             (map (shiftPipe (frameDelta now g)) (pipes (spawnStep (frameDelta now g) u g)))))"
  using assms by (simp add: loop_updates update_score spawnStep_pipes_lastTime)

lemma loop_endGame:
  assumes "running g" and "bird_alive (bird g)" and "\<not> paused g"
    and "\<not> bird_alive (bird (loop now ch u g))"
  shows "best (loop now ch u g) = max (best g) (score (loop now ch u g))
       \<and> endScore (loop now ch u g) = score (loop now ch u g)
       \<and> endBest (loop now ch u g) = max (best g) (score (loop now ch u g))
       \<and> endTitle (loop now ch u g) = ''Game Over''"
proof -
  let ?h = "pipeCheck (boundsCheck ch (moved (frameDelta now g) u (g\<lparr> lastTime := now \<rparr>)))"
  have l: "loop now ch u g = deathCheck ?h"
    using assms(1-3) by (simp add: loop_updates update_moved)
  have "\<not> bird_alive (bird ?h)" using assms(4) unfolding l by simp
  then have e: "loop now ch u g = endGame ?h" unfolding l by (simp add: deathCheck_def)
  have b: "best ?h = best g" by simp
  show ?thesis unfolding e by (simp add: endGame_def Let_def b)
qed


subsection \<open>The concrete sessions, evaluated\<close>

lemmas fixture_defs = cruise_def lowFlight_def twoCrossing_def pipeAhead_def nearCeiling_def
  ceilingOverPipe_def

lemma groundHeight_480: "groundHeight 480 = 58"
  by (simp add: groundHeight_def round_def)

lemma groundHeight_100: "groundHeight 100 = 34"
  by (simp add: groundHeight_def round_def)

lemma groundHeight_2000: "groundHeight 2000 = 240"
  by (simp add: groundHeight_def round_def)

lemmas eval_defs = frameDelta_def spawnStep_def shiftPipe_def crossed_def offscreen_def
  markPassed_def collidePipe_def GRAVITY_def PIPE_W_def PIPE_SPEED_def PIPE_INTERVAL_def
  groundHeight_480

lemma cruise_facts:
  "running cruise" "bird_alive (bird cruise)" "\<not> paused cruise"
  by (simp_all add: cruise_def)

lemma lowFlight_facts:
  "running lowFlight" "bird_alive (bird lowFlight)" "\<not> paused lowFlight"
  by (simp_all add: fixture_defs)

lemma twoCrossing_facts:
  "running twoCrossing" "bird_alive (bird twoCrossing)" "\<not> paused twoCrossing"
  by (simp_all add: fixture_defs)

lemma pipeAhead_facts:
  "running pipeAhead" "bird_alive (bird pipeAhead)" "\<not> paused pipeAhead"
  by (simp_all add: fixture_defs)

lemma nearCeiling_facts:
  "running nearCeiling" "bird_alive (bird nearCeiling)" "\<not> paused nearCeiling"
  by (simp_all add: fixture_defs)

lemma ceilingOverPipe_facts:
  "running ceilingOverPipe" "bird_alive (bird ceilingOverPipe)" "\<not> paused ceilingOverPipe"
  by (simp_all add: fixture_defs)

text \<open>\<open>lowFlight\<close>, one frame of 16 ms later: the bird is in the ground band.\<close>

lemma lowFlight_y1:
  "bird_y (birdPhysics (frameDelta 16 lowFlight) (bird lowFlight)) = 413.4816"
  by (simp add: fixture_defs eval_defs)

lemma lowFlight_dies: "\<not> bird_alive (bird (loop 16 480 0 lowFlight))"
proof -
  have "bird_y (birdPhysics (frameDelta 16 lowFlight) (bird lowFlight))
          + bird_radius (bird lowFlight)
        > real_of_int (height lowFlight) - real_of_int (groundHeight 480)"
    unfolding lowFlight_y1 by (simp add: fixture_defs groundHeight_480)
  then show ?thesis using loop_alive_iff[OF lowFlight_facts] by blast
qed

lemma lowFlight_stops: "\<not> running (loop 16 480 0 lowFlight)"
  using loop_running_iff[OF lowFlight_facts, of 16 480 0] lowFlight_dies by simp

lemma lowFlight_score: "score (loop 16 480 0 lowFlight) = 3"
  unfolding loop_score[OF lowFlight_facts]
  by (simp add: fixture_defs eval_defs)

lemma lowFlight_crash:
  "best (loop 16 480 0 lowFlight) = 3 \<and> endScore (loop 16 480 0 lowFlight) = 3
   \<and> endBest (loop 16 480 0 lowFlight) = 3 \<and> endTitle (loop 16 480 0 lowFlight) = ''Game Over''"
  using loop_endGame[OF lowFlight_facts lowFlight_dies]
  by (simp add: lowFlight_score) (simp add: fixture_defs)

lemma lowFlight_pipes:
  "pipes (loop 16 480 0 lowFlight) =
     [\<lparr> pipe_x = - 4.88, pipe_top = 100, pipe_bottom = 240, pipe_passed = True \<rparr>,
      \<lparr> pipe_x = 247.12, pipe_top = 150, pipe_bottom = 290, pipe_passed = False \<rparr>]"
  unfolding loop_pipes[OF lowFlight_facts] by (simp add: fixture_defs eval_defs)

lemma lowFlight_no_hit:
  "\<not> hitsAny (bird (loop 16 480 0 lowFlight)) (pipes (loop 16 480 0 lowFlight))"
  unfolding lowFlight_pipes
  by (simp add: collidePipe_def loop_x_radius PIPE_W_def) (simp add: fixture_defs)

text \<open>\<open>pipeAhead\<close>, one frame later: the bird is inside the pipe's upper segment.\<close>

lemma pipeAhead_y1:
  "bird_y (birdPhysics (frameDelta 16 pipeAhead) (bird pipeAhead)) = 240.2816"
  by (simp add: fixture_defs eval_defs)

lemma pipeAhead_y: "bird_y (bird (loop 16 480 0 pipeAhead)) = 240.2816"
  unfolding loop_y[OF pipeAhead_facts] pipeAhead_y1 by (simp add: fixture_defs)

lemma pipeAhead_pipes:
  "pipes (loop 16 480 0 pipeAhead) =
     [\<lparr> pipe_x = 117.12, pipe_top = 300, pipe_bottom = 440, pipe_passed = False \<rparr>]"
  unfolding loop_pipes[OF pipeAhead_facts] by (simp add: fixture_defs eval_defs)

lemma pipeAhead_hit:
  "hitsAny (bird (loop 16 480 0 pipeAhead)) (pipes (loop 16 480 0 pipeAhead))"
  unfolding pipeAhead_pipes
  by (simp add: collidePipe_def pipeAhead_y loop_x_radius PIPE_W_def) (simp add: fixture_defs)

text \<open>\<open>nearCeiling\<close> and \<open>ceilingOverPipe\<close>, one frame later: the bird is clamped.\<close>

lemma nearCeiling_y1:
  "bird_y (birdPhysics (frameDelta 16 nearCeiling) (bird nearCeiling)) = 14.6816"
  by (simp add: fixture_defs eval_defs)

lemma nearCeiling_pipes:
  "pipes (loop 16 480 0 nearCeiling) =
     [\<lparr> pipe_x = - 4.88, pipe_top = 100, pipe_bottom = 240, pipe_passed = True \<rparr>,
      \<lparr> pipe_x = 247.12, pipe_top = 150, pipe_bottom = 290, pipe_passed = False \<rparr>]"
  unfolding loop_pipes[OF nearCeiling_facts] by (simp add: fixture_defs eval_defs)

lemma nearCeiling_no_hit:
  "\<not> hitsAny (bird (loop 16 480 0 nearCeiling)) (pipes (loop 16 480 0 nearCeiling))"
  unfolding nearCeiling_pipes
  by (simp add: collidePipe_def loop_x_radius PIPE_W_def) (simp add: fixture_defs)

lemma ceilingOverPipe_y1:
  "bird_y (birdPhysics (frameDelta 16 ceilingOverPipe) (bird ceilingOverPipe)) = 14.6816"
  by (simp add: fixture_defs eval_defs)

lemma ceilingOverPipe_y: "bird_y (bird (loop 16 480 0 ceilingOverPipe)) = 18"
  unfolding loop_y[OF ceilingOverPipe_facts] ceilingOverPipe_y1 by (simp add: fixture_defs)

lemma ceilingOverPipe_vy: "bird_vy (bird (loop 16 480 0 ceilingOverPipe)) = 0"
  unfolding loop_vy[OF ceilingOverPipe_facts] ceilingOverPipe_y1 by (simp add: fixture_defs)

lemma ceilingOverPipe_pipes:
  "pipes (loop 16 480 0 ceilingOverPipe) =
     [\<lparr> pipe_x = 117.12, pipe_top = 100, pipe_bottom = 240, pipe_passed = False \<rparr>]"
  unfolding loop_pipes[OF ceilingOverPipe_facts] by (simp add: fixture_defs eval_defs)

lemma ceilingOverPipe_hit:
  "hitsAny (bird (loop 16 480 0 ceilingOverPipe)) (pipes (loop 16 480 0 ceilingOverPipe))"
  unfolding ceilingOverPipe_pipes
  by (simp add: collidePipe_def ceilingOverPipe_y loop_x_radius PIPE_W_def)
     (simp add: fixture_defs)

text \<open>A session on a playfield 100 pixels high, started by one flap at time 0.\<close>

lemma tiny_facts:
  "running (run [Flap 0] (startup 0 320 100 0))"
  "bird_alive (bird (run [Flap 0] (startup 0 320 100 0)))"
  "\<not> paused (run [Flap 0] (startup 0 320 100 0))"
  "lastTime (run [Flap 0] (startup 0 320 100 0)) = 0"
  by (simp_all add: startup_def reset_def doFlap_def Let_def)

lemma cruise_settled: "settled 480 cruise"
  by (simp add: settled_def hitGround_def fixture_defs eval_defs)


subsection \<open>Session end and the best record\<close>

lemma doFlap_when_ended:
  "\<not> running g \<Longrightarrow> \<not> bird_alive (bird g) \<Longrightarrow>
   doFlap tnow g = g\<lparr> running := True, lastTime := tnow \<rparr>"
  by (simp add: doFlap_def Let_def)

text \<open>
  Claim C1 says that the result a session emits when it ends reports a new best exactly
  when the final score exceeds the best record held before the transition. The title is
  the only place where \<^verbatim>\<open>endGame\<close> reports it, and \<^verbatim>\<open>endGame\<close> compares \<open>score > best\<close>
  for the title after it has already raised \<open>best\<close> to \<open>score\<close>: the title is
  \<open>''Game Over''\<close> for every state. At \<open>lowFlight\<close> (score 3, best record 2) the frame
  that ends the session raises the best record to 3 and still titles the panel
  \<open>''Game Over''\<close>.
\<close>

theorem new_best_never_announced:
  "endTitle (endGame g) = ''Game Over''
   \<and> score lowFlight = 3 \<and> best lowFlight = 2
   \<and> \<not> running (loop 16 480 0 lowFlight)
   \<and> endScore (loop 16 480 0 lowFlight) = 3
   \<and> best (loop 16 480 0 lowFlight) = 3
   \<and> endTitle (loop 16 480 0 lowFlight) = ''Game Over''"
  using lowFlight_crash lowFlight_stops
  by (simp add: endGame_def Let_def) (simp add: fixture_defs)

text \<open>
  Claim C2 says that a flap in the Ended phase changes nothing, the running flag
  included. \<^verbatim>\<open>doFlap\<close> tests \<open>running\<close> before it tests \<open>bird.alive\<close>: on a session that
  \<^verbatim>\<open>endGame\<close> has just stopped it sets \<open>running\<close> back to true (and \<open>lastTime\<close>), and
  only then returns because the bird is dead. Shown for the state \<^verbatim>\<open>endGame\<close> leaves, and
  for the ended session that \<open>lowFlight\<close> becomes.
\<close>

theorem flap_after_end_sets_running:
  "\<not> running (endGame g) \<and> running (doFlap tnow (endGame g))
   \<and> \<not> running (loop 16 480 0 lowFlight)
   \<and> \<not> bird_alive (bird (loop 16 480 0 lowFlight))
   \<and> running (doFlap 20 (loop 16 480 0 lowFlight))
   \<and> doFlap 20 (loop 16 480 0 lowFlight) \<noteq> loop 16 480 0 lowFlight"
proof -
  have a: "\<not> running (endGame g) \<and> running (doFlap tnow (endGame g))"
    by (simp add: doFlap_def Let_def)
  have b: "running (doFlap 20 (loop 16 480 0 lowFlight))"
    using lowFlight_stops by (simp add: doFlap_def Let_def)
  then have c: "doFlap 20 (loop 16 480 0 lowFlight) \<noteq> loop 16 480 0 lowFlight"
    using lowFlight_stops by metis
  from a b c lowFlight_stops lowFlight_dies show ?thesis by blast
qed

subsection \<open>Where a spawned pipe's gap lies\<close>

lemma groundHeight_le_120: "ch \<le> 1004 \<Longrightarrow> groundHeight ch \<le> 120"
proof -
  assume "ch \<le> 1004"
  then have "real_of_int ch \<le> 1004" by simp
  then have "real_of_int ch * 0.12 + 1 / 2 < 121" by simp
  then have "round (real_of_int ch * 0.12) < 121"
    unfolding round_def by (simp add: floor_less_iff)
  then show ?thesis by (simp add: groundHeight_def)
qed

lemma floor_random_range:
  fixes u :: real and n :: int
  assumes "0 \<le> u" and "u < 1" and "1 \<le> n"
  shows "0 \<le> \<lfloor>u * real_of_int n\<rfloor> \<and> \<lfloor>u * real_of_int n\<rfloor> \<le> n - 1"
proof -
  have n: "0 < real_of_int n" using assms(3) by simp
  have "0 \<le> u * real_of_int n" using assms(1) n by simp
  then have lo: "0 \<le> \<lfloor>u * real_of_int n\<rfloor>" by simp
  have "u * real_of_int n < 1 * real_of_int n"
    using assms(2) n by (rule mult_strict_right_mono)
  then have "u * real_of_int n < real_of_int n" by simp
  then have "\<lfloor>u * real_of_int n\<rfloor> < n" by (simp add: floor_less_iff)
  with lo show ?thesis by simp
qed

text \<open>
  Claim C3, as amended: \<^verbatim>\<open>spawnPipe\<close> appends one pipe; when the playfield is at least
  308 pixels high (so that \<open>maxTop \<ge> minTop\<close>) its gap top is at least 48, its gap bottom
  is the top plus 140 and lies at most at \<open>height - 120\<close>; that is outside the ground band
  whenever the client height from which \<^verbatim>\<open>groundHeight\<close> is computed is at most 1004
  (where the band is at most 120 high).
\<close>

theorem spawn_gap_bounds:
  assumes "0 \<le> u" and "u < 1" and "308 \<le> height g"
  shows "pipes (spawnPipe u g) = pipes g @ [last (pipes (spawnPipe u g))]
       \<and> 48 \<le> pipe_top (last (pipes (spawnPipe u g)))
       \<and> pipe_bottom (last (pipes (spawnPipe u g)))
           = pipe_top (last (pipes (spawnPipe u g))) + 140
       \<and> pipe_bottom (last (pipes (spawnPipe u g))) \<le> real_of_int (height g) - 120
       \<and> (ch \<le> 1004 \<longrightarrow>
            pipe_bottom (last (pipes (spawnPipe u g)))
              \<le> real_of_int (height g) - real_of_int (groundHeight ch))"
proof -
  let ?n = "height g - PIPE_GAP - 120 - 48 + 1"
  have "1 \<le> ?n" using assms(3) by (simp add: PIPE_GAP_def)
  from floor_random_range[OF assms(1,2) this]
  have f: "0 \<le> \<lfloor>u * real_of_int ?n\<rfloor>" "\<lfloor>u * real_of_int ?n\<rfloor> \<le> ?n - 1" by auto
  let ?top = "\<lfloor>u * real_of_int ?n\<rfloor> + 48"
  have l: "last (pipes (spawnPipe u g)) =
      \<lparr> pipe_x = real_of_int (width g + 20), pipe_top = real_of_int ?top,
        pipe_bottom = real_of_int (?top + PIPE_GAP), pipe_passed = False \<rparr>"
    by (simp add: spawnPipe_def Let_def)
  have p: "pipes (spawnPipe u g) = pipes g @ [last (pipes (spawnPipe u g))]"
    by (simp add: spawnPipe_def Let_def)
  have t: "(48::real) \<le> real_of_int ?top" using f(1) by linarith
  have b: "real_of_int (?top + PIPE_GAP) \<le> real_of_int (height g) - 120"
    using f(2) by (simp add: PIPE_GAP_def)
  have gh: "real_of_int (?top + PIPE_GAP) \<le> real_of_int (height g) - real_of_int (groundHeight ch)"
    if "ch \<le> 1004"
  proof -
    have "real_of_int (groundHeight ch) \<le> 120" using groundHeight_le_120[OF that] by linarith
    with b show ?thesis by linarith
  qed
  show ?thesis
    unfolding l using p[unfolded l] t b gh by (simp add: PIPE_GAP_def)
qed

text \<open>On the 320 by 480 playfield with \<open>Math.random() = 1/2\<close>: the gap is \<open>[134, 274]\<close>.\<close>

theorem spawn_gap_bounds_witness:
  "(0::real) \<le> 1/2 \<and> (1/2::real) < 1 \<and> 308 \<le> height (startup 0 320 480 0)
   \<and> (480::int) \<le> 1004
   \<and> pipe_top (last (pipes (spawnPipe (1/2) (startup 0 320 480 0)))) = 134
   \<and> 48 \<le> pipe_top (last (pipes (spawnPipe (1/2) (startup 0 320 480 0))))
   \<and> pipe_bottom (last (pipes (spawnPipe (1/2) (startup 0 320 480 0))))
        \<le> real_of_int (height (startup 0 320 480 0)) - real_of_int (groundHeight 480)"
proof -
  have h: "308 \<le> height (startup 0 320 480 0)" by (simp add: startup_def reset_def)
  have t: "pipe_top (last (pipes (spawnPipe (1/2) (startup 0 320 480 0)))) = 134"
    by (simp add: spawnPipe_def startup_def reset_def Let_def PIPE_GAP_def)
  from spawn_gap_bounds[of "1/2" "startup 0 320 480 0" 480, OF _ _ h] h t
  show ?thesis by simp
qed

text \<open>
  The claim as stated fails outside those heights. On a playfield 200 pixels high with
  \<open>Math.random() = 1/2\<close> the gap top is \<open>-6\<close>, above the ceiling margin of 48; on a
  playfield 2000 pixels high (ground band 240) with \<open>Math.random() = 0.999\<close> the gap
  bottom is 1879, inside the ground band that starts at 1760.
\<close>

theorem spawn_gap_counterexample:
  "pipe_top (last (pipes (spawnPipe (1/2) (startup 0 320 200 0)))) = - 6
   \<and> pipe_top (last (pipes (spawnPipe (1/2) (startup 0 320 200 0)))) < 48
   \<and> pipe_bottom (last (pipes (spawnPipe (999/1000) (startup 0 320 2000 0)))) = 1879
   \<and> groundHeight 2000 = 240
   \<and> pipe_bottom (last (pipes (spawnPipe (999/1000) (startup 0 320 2000 0))))
        > real_of_int (height (startup 0 320 2000 0)) - real_of_int (groundHeight 2000)"
  by (simp add: spawnPipe_def startup_def reset_def Let_def PIPE_GAP_def groundHeight_2000)


subsection \<open>A frame with time step zero\<close>

lemma frameDelta_same [simp]: "frameDelta (lastTime g) g = 0"
  by (simp add: frameDelta_def)

lemma birdPhysics_zero [simp]: "birdPhysics 0 b = b"
  by (simp add: birdPhysics_def Let_def)

lemma shiftPipe_zero [simp]: "shiftPipe 0 p = p"
  by (simp add: shiftPipe_def)

lemma spawnStep_zero: "spawnTimer g < PIPE_INTERVAL \<Longrightarrow> spawnStep 0 u g = g"
  by (simp add: spawnStep_def Let_def)

lemma movePipes_zero:
  assumes "list_all (\<lambda>p. \<not> crossed (bird_x (bird g)) p \<and> \<not> offscreen p) (pipes g)"
  shows "movePipes 0 g = g"
proof -
  have "filter (\<lambda>p. \<not> offscreen p) (map (\<lambda>p. markPassed (bird_x (bird g)) (shiftPipe 0 p)) (pipes g))
        = pipes g"
    using assms by (auto simp: list_all_iff markPassed_def filter_id_conv map_idI)
  moreover have "filter (crossed (bird_x (bird g))) (map (shiftPipe 0) (pipes g)) = []"
    using assms by (auto simp: list_all_iff filter_empty_conv)
  ultimately show ?thesis
    by (simp add: movePipes_def pipeLoop_all)
qed

lemma update_zero_settled:
  assumes "settled ch g" and "bird_alive (bird g)"
  shows "update 0 ch u g = g"
  using assms
  by (simp add: update_def settled_def spawnStep_zero movePipes_zero boundsCheck_id
      pipeCheck_def deathCheck_def)

lemma update_zero_unsettled:
  assumes "\<not> settled ch g" and "bird_alive (bird g)"
  shows "update 0 ch u g \<noteq> g"
proof (cases "spawnTimer g < PIPE_INTERVAL")
  case False
  have "spawnTimer (update 0 ch u g) = 0"
    using False by (simp add: update_def spawnStep_def Let_def)
  moreover have "spawnTimer g \<noteq> 0" using False by (simp add: PIPE_INTERVAL_def)
  ultimately show ?thesis by metis
next
  case timer: True
  let ?bx = "bird_x (bird g)"
  have sp: "pipes (spawnStep 0 u g) = pipes g" by (simp add: spawnStep_zero[OF timer])
  show ?thesis
  proof (cases "list_all (\<lambda>p. \<not> crossed ?bx p \<and> \<not> offscreen p) (pipes g)")
    case False
    then obtain p where p: "p \<in> set (pipes g)" "crossed ?bx p \<or> offscreen p"
      by (auto simp: list_all_iff)
    from p(2) show ?thesis
    proof
      assume "crossed ?bx p"
      with p(1) have "filter (crossed ?bx) (pipes g) \<noteq> []"
        by (auto simp: filter_empty_conv)
      then have "score (update 0 ch u g) \<noteq> score g"
        by (simp add: update_score sp o_def)
      then show ?thesis by metis
    next
      assume "offscreen p"
      with p(1) have "length (filter (\<lambda>p. \<not> offscreen p) (pipes g)) < length (pipes g)"
        by (auto intro!: length_filter_less)
      then have "length (pipes (update 0 ch u g)) \<noteq> length (pipes g)"
        by (simp add: update_pipes sp o_def)
      then show ?thesis by metis
    qed
  next
    case pipesok: True
    have mv: "moved 0 u g = g"
      by (simp add: moved_def spawnStep_zero[OF timer] movePipes_zero[OF pipesok])
    show ?thesis
    proof (cases "hitGround ch g")
      case True
      then have "\<not> bird_alive (bird (update 0 ch u g))"
        using update_alive[of 0 ch u g] by (simp add: mv)
      with assms(2) show ?thesis by metis
    next
      case ground: False
      show ?thesis
      proof (cases "bird_y (bird g) - bird_radius (bird g) < 0")
        case True
        then have "bird_y (bird (update 0 ch u g)) \<noteq> bird_y (bird g)"
          by (simp add: update_y)
        then show ?thesis by metis
      next
        case False
        with ground timer pipesok assms(1) have h: "hitsAny (bird g) (pipes g)"
          by (simp add: settled_def)
        have "boundsCheck ch g = g" using ground False by (rule boundsCheck_id)
        then have "\<not> bird_alive (bird (update 0 ch u g))"
          using h by (simp add: update_moved mv pipeCheck_alive)
        with assms(2) show ?thesis by metis
      qed
    qed
  qed
qed

text \<open>
  Every frame that integrates and leaves the bird alive leaves a settled state, as long
  as the client height is the same and the playfield above the ground band is at least
  as high as the bird; a flap does not unsettle a state.
\<close>

lemma settled_after_frame:
  assumes "running g" and "bird_alive (bird g)" and "\<not> paused g"
    and "bird_alive (bird (loop now ch u g))"
    and "2 * bird_radius (bird g) \<le> real_of_int (height g) - real_of_int (groundHeight ch)"
  shows "settled ch (loop now ch u g)"
proof -
  let ?dt = "frameDelta now g"
  let ?g1 = "g\<lparr> lastTime := now \<rparr>"
  let ?g' = "update ?dt ch u ?g1"
  have l: "loop now ch u g = ?g'"
    using assms(1-3) by (rule loop_updates)
  have al: "bird_alive (bird ?g')" using assms(4) unfolding l .
  have ng: "\<not> hitGround ch (moved ?dt u ?g1)" and nh: "\<not> hitsAny (bird ?g') (pipes ?g')"
    using al update_alive[of ?dt ch u ?g1] by auto
  have t: "spawnTimer ?g' < PIPE_INTERVAL"
    by (simp add: update_def spawnStep_def Let_def PIPE_INTERVAL_def)
  have bx: "bird_x (bird ?g') = bird_x (bird g)"
    by simp
  have ps: "list_all (\<lambda>p. \<not> crossed (bird_x (bird ?g')) p \<and> \<not> offscreen p) (pipes ?g')"
    unfolding bx
    by (auto simp: update_pipes list_all_iff markPassed_def crossed_def offscreen_def)
  have y: "\<not> bird_y (bird ?g') - bird_radius (bird ?g') < 0"
    by (simp add: update_y del: birdPhysics_fields)
  have hg: "\<not> hitGround ch ?g'"
    using ng assms(5)
    by (simp add: hitGround_def update_y del: birdPhysics_fields(5))
  show ?thesis unfolding l settled_def using t ps hg y nh by blast
qed

lemma settled_doFlap: "settled ch (doFlap tnow g) \<longleftrightarrow> settled ch g"
  by (simp add: settled_def doFlap_def Let_def hitGround_def hitsAny_iff collidePipe_def)

text \<open>
  Claim C4, as amended: a frame whose time step is zero (its timestamp is \<open>lastTime\<close>)
  integrates nothing but still runs the spawn, scoring, removal and collision tests, so
  it leaves the whole state unchanged exactly when the game is paused, not running, the
  bird is dead, or the state is settled.
\<close>

theorem zero_tick_unchanged_iff:
  "loop (lastTime g) ch u g = g \<longleftrightarrow>
     paused g \<or> \<not> running g \<or> \<not> bird_alive (bird g) \<or> settled ch g"
proof (cases "paused g \<or> \<not> running g \<or> \<not> bird_alive (bird g)")
  case True
  have "loop (lastTime g) ch u g = g"
    using loop_idle[OF True, of "lastTime g" ch u] by simp
  with True show ?thesis by blast
next
  case False
  then have l: "loop (lastTime g) ch u g = update 0 ch u g"
    using loop_updates[of g "lastTime g" ch u] by simp
  show ?thesis
    using False update_zero_settled[of ch g u] update_zero_unsettled[of ch g u]
    unfolding l by blast
qed

text \<open>The running session \<open>cruise\<close> is settled, and a zero frame leaves it as it is.\<close>

theorem zero_tick_unchanged_iff_witness:
  "running cruise \<and> bird_alive (bird cruise) \<and> \<not> paused cruise \<and> settled 480 cruise
   \<and> loop (lastTime cruise) 480 0 cruise = cruise"
  using zero_tick_unchanged_iff[of cruise 480 0] cruise_settled cruise_facts by simp

text \<open>
  The claim as stated fails on a reachable state that is not settled. On a playfield 100
  pixels high the bird starts at \<open>y = 50\<close>, inside the ground band (\<open>50 + 18 > 100 - 34\<close>).
  After the flap that starts the run, a frame with the flap's own timestamp has time
  step zero, kills the bird and ends the session.
\<close>

theorem zero_tick_counterexample:
  "running (run [Flap 0] (startup 0 320 100 0))
   \<and> bird_alive (bird (run [Flap 0] (startup 0 320 100 0)))
   \<and> \<not> paused (run [Flap 0] (startup 0 320 100 0))
   \<and> frameDelta 0 (run [Flap 0] (startup 0 320 100 0)) = 0
   \<and> \<not> bird_alive (bird (loop 0 100 0 (run [Flap 0] (startup 0 320 100 0))))
   \<and> \<not> running (loop 0 100 0 (run [Flap 0] (startup 0 320 100 0)))
   \<and> loop 0 100 0 (run [Flap 0] (startup 0 320 100 0)) \<noteq> run [Flap 0] (startup 0 320 100 0)"
proof -
  let ?g = "run [Flap 0] (startup 0 320 100 0)"
  have d: "frameDelta 0 ?g = 0" unfolding frameDelta_def tiny_facts(4) by simp
  have "bird_y (birdPhysics (frameDelta 0 ?g) (bird ?g)) + bird_radius (bird ?g)
          > real_of_int (height ?g) - real_of_int (groundHeight 100)"
    unfolding d by (simp add: startup_def reset_def doFlap_def Let_def groundHeight_100)
  then have dead: "\<not> bird_alive (bird (loop 0 100 0 ?g))"
    using loop_alive_iff[OF tiny_facts(1-3)] by blast
  then have stop: "\<not> running (loop 0 100 0 ?g)"
    using loop_running_iff[OF tiny_facts(1-3), of 0 100 0] by simp
  have "loop 0 100 0 ?g \<noteq> ?g" using stop tiny_facts(1) by metis
  with d dead stop tiny_facts show ?thesis by blast
qed

subsection \<open>Scoring\<close>

text \<open>
  Claim C5: on a frame of a running session, with the pipes of that frame (a pipe
  spawned on it included) moved by \<open>PIPE_SPEED * dt\<close>, the score grows by exactly the
  number of pipes that are not yet passed and whose trailing edge is strictly left of
  the bird; the pipes after the frame are the moved pipes still on screen, in order,
  each of those marked passed; and no pipe is left unmarked behind the bird.
\<close>

theorem scoring_counts_every_crossing:
  assumes "running g" and "bird_alive (bird g)" and "\<not> paused g"
  shows "score (loop now ch u g) =
           score g + int (length (filter (crossed (bird_x (bird g)))
             (map (shiftPipe (frameDelta now g)) (pipes (spawnStep (frameDelta now g) u g)))))
       \<and> pipes (loop now ch u g) =
           filter (\<lambda>p. \<not> offscreen p)
             (map (\<lambda>p. markPassed (bird_x (bird g)) (shiftPipe (frameDelta now g) p))
                (pipes (spawnStep (frameDelta now g) u g)))
       \<and> list_all (\<lambda>p. \<not> crossed (bird_x (bird g)) p) (pipes (loop now ch u g))"
proof -
  have "list_all (\<lambda>p. \<not> crossed (bird_x (bird g)) p) (pipes (loop now ch u g))"
    unfolding loop_pipes[OF assms]
    by (auto simp: list_all_iff markPassed_def crossed_def)
  then show ?thesis using loop_score[OF assms] loop_pipes[OF assms] by blast
qed

text \<open>Two pipes cross on the same frame: both are marked, and the score grows by 2.\<close>

theorem scoring_counts_every_crossing_witness:
  "running twoCrossing \<and> bird_alive (bird twoCrossing) \<and> \<not> paused twoCrossing
   \<and> map pipe_passed (pipes twoCrossing) = [False, False, False]
   \<and> score (loop 16 480 0 twoCrossing) = score twoCrossing + 2
   \<and> map pipe_passed (pipes (loop 16 480 0 twoCrossing)) = [True, True, False]"
proof -
  from scoring_counts_every_crossing[OF twoCrossing_facts, of 16 480 0]
  have "score (loop 16 480 0 twoCrossing) = score twoCrossing + 2"
    and "map pipe_passed (pipes (loop 16 480 0 twoCrossing)) = [True, True, False]"
    by (simp_all add: fixture_defs eval_defs)
  then show ?thesis using twoCrossing_facts by (simp add: fixture_defs)
qed


subsection \<open>Ground and ceiling\<close>

text \<open>
  Claim C6, as amended: on a frame of a running session the bird dies exactly when,
  after integration, \<open>y + radius\<close> exceeds \<open>height - groundHeight\<close> or a pipe collides
  with it, and the session stops running exactly when the bird dies. So the ground
  condition always kills on that very frame, and where no pipe collides it is the only
  cause: with radius 18, height 480 and ground band 58, death if and only if
  \<open>y + 18 > 422\<close>.
\<close>

theorem ground_death:
  assumes "running g" and "bird_alive (bird g)" and "\<not> paused g"
  shows "(\<not> bird_alive (bird (loop now ch u g)) \<longleftrightarrow>
            bird_y (birdPhysics (frameDelta now g) (bird g)) + bird_radius (bird g)
              > real_of_int (height g) - real_of_int (groundHeight ch)
            \<or> hitsAny (bird (loop now ch u g)) (pipes (loop now ch u g)))
       \<and> (running (loop now ch u g) \<longleftrightarrow> bird_alive (bird (loop now ch u g)))
       \<and> (height g = 480 \<and> groundHeight ch = 58 \<and> bird_radius (bird g) = 18
            \<and> \<not> hitsAny (bird (loop now ch u g)) (pipes (loop now ch u g))
          \<longrightarrow> (\<not> bird_alive (bird (loop now ch u g)) \<longleftrightarrow>
                 bird_y (birdPhysics (frameDelta now g) (bird g)) + 18 > 422))"
proof -
  note a = loop_alive_iff[OF assms, of now ch u]
  note r = loop_running_iff[OF assms, of now ch u]
  from a r show ?thesis by auto
qed

text \<open>\<open>lowFlight\<close> reaches \<open>y = 413.4816\<close>, no pipe collides, and the session ends.\<close>

theorem ground_death_witness:
  "running lowFlight \<and> bird_alive (bird lowFlight) \<and> \<not> paused lowFlight
   \<and> height lowFlight = 480 \<and> groundHeight 480 = 58 \<and> bird_radius (bird lowFlight) = 18
   \<and> \<not> hitsAny (bird (loop 16 480 0 lowFlight)) (pipes (loop 16 480 0 lowFlight))
   \<and> bird_y (birdPhysics (frameDelta 16 lowFlight) (bird lowFlight)) = 413.4816
   \<and> bird_y (birdPhysics (frameDelta 16 lowFlight) (bird lowFlight)) + 18 > 422
   \<and> \<not> bird_alive (bird (loop 16 480 0 lowFlight))
   \<and> \<not> running (loop 16 480 0 lowFlight)"
proof -
  have f: "height lowFlight = 480" "bird_radius (bird lowFlight) = 18"
    by (simp_all add: fixture_defs)
  from ground_death[OF lowFlight_facts, of 16 480 0] lowFlight_no_hit f groundHeight_480
  have "\<not> bird_alive (bird (loop 16 480 0 lowFlight))
        \<and> \<not> running (loop 16 480 0 lowFlight)"
    unfolding lowFlight_y1 by simp
  then show ?thesis
    unfolding lowFlight_y1 using lowFlight_facts lowFlight_no_hit f groundHeight_480 by simp
qed

text \<open>
  The claim as stated fails where a pipe collides: \<open>pipeAhead\<close> is in mid-air at
  \<open>y = 240.2816\<close> after integration, far above the ground band (\<open>y + 18 \<le> 422\<close>), and
  the bird dies and the session ends on that frame, on the pipe at its position.
\<close>

theorem ground_death_counterexample:
  "running pipeAhead \<and> bird_alive (bird pipeAhead) \<and> \<not> paused pipeAhead
   \<and> height pipeAhead = 480 \<and> groundHeight 480 = 58 \<and> bird_radius (bird pipeAhead) = 18
   \<and> bird_y (birdPhysics (frameDelta 16 pipeAhead) (bird pipeAhead)) = 240.2816
   \<and> \<not> bird_y (birdPhysics (frameDelta 16 pipeAhead) (bird pipeAhead)) + 18 > 422
   \<and> \<not> bird_alive (bird (loop 16 480 0 pipeAhead))
   \<and> \<not> running (loop 16 480 0 pipeAhead)"
proof -
  have dead: "\<not> bird_alive (bird (loop 16 480 0 pipeAhead))"
    using loop_alive_iff[OF pipeAhead_facts, of 16 480 0] pipeAhead_hit by blast
  then have stop: "\<not> running (loop 16 480 0 pipeAhead)"
    using loop_running_iff[OF pipeAhead_facts, of 16 480 0] by simp
  have f: "height pipeAhead = 480" "bird_radius (bird pipeAhead) = 18"
    by (simp_all add: fixture_defs)
  show ?thesis
    unfolding pipeAhead_y1 using dead stop f pipeAhead_facts groundHeight_480 by simp
qed

text \<open>
  Claim C7, as amended: when the integration step of a frame puts \<open>y - radius\<close> below
  zero, then after the frame \<open>y\<close> is exactly the radius and \<open>vy\<close> exactly 0; if the
  ground condition does not hold, the bird stays alive and the session keeps running
  exactly when no pipe collides with the bird at its clamped position. A frame never
  leaves \<open>y - radius\<close> negative, unless it did not integrate and the value was negative
  before.
\<close>

theorem ceiling_clamp:
  "(running g \<and> bird_alive (bird g) \<and> \<not> paused g
      \<and> bird_y (birdPhysics (frameDelta now g) (bird g)) - bird_radius (bird g) < 0
    \<longrightarrow> bird_y (bird (loop now ch u g)) = bird_radius (bird g)
      \<and> bird_vy (bird (loop now ch u g)) = 0
      \<and> (\<not> bird_y (birdPhysics (frameDelta now g) (bird g)) + bird_radius (bird g)
              > real_of_int (height g) - real_of_int (groundHeight ch)
          \<longrightarrow> (bird_alive (bird (loop now ch u g)) \<longleftrightarrow>
                  \<not> hitsAny (bird (loop now ch u g)) (pipes (loop now ch u g)))
            \<and> (running (loop now ch u g) \<longleftrightarrow>
                  \<not> hitsAny (bird (loop now ch u g)) (pipes (loop now ch u g)))))
   \<and> ((running g \<and> bird_alive (bird g) \<and> \<not> paused g)
        \<or> 0 \<le> bird_y (bird g) - bird_radius (bird g)
      \<longrightarrow> 0 \<le> bird_y (bird (loop now ch u g)) - bird_radius (bird (loop now ch u g)))"
proof (cases "running g \<and> bird_alive (bird g) \<and> \<not> paused g")
  case True
  then have h: "running g" "bird_alive (bird g)" "\<not> paused g" by simp_all
  note a = loop_alive_iff[OF h, of now ch u]
  note r = loop_running_iff[OF h, of now ch u]
  note y = loop_y[OF h, of now ch u]
  note v = loop_vy[OF h, of now ch u]
  have n: "0 \<le> bird_y (bird (loop now ch u g)) - bird_radius (bird (loop now ch u g))"
    unfolding y loop_x_radius by simp
  show ?thesis using a r y v n by auto
next
  case False
  then have "loop now ch u g = g\<lparr> lastTime := now \<rparr>"
    using loop_idle[of g now ch u] by blast
  with False show ?thesis by auto
qed

text \<open>\<open>nearCeiling\<close>, with no pipe at the bird's position: clamped, alive, still running.\<close>

theorem ceiling_clamp_witness:
  "running nearCeiling \<and> bird_alive (bird nearCeiling) \<and> \<not> paused nearCeiling
   \<and> bird_y (birdPhysics (frameDelta 16 nearCeiling) (bird nearCeiling))
        - bird_radius (bird nearCeiling) < 0
   \<and> \<not> bird_y (birdPhysics (frameDelta 16 nearCeiling) (bird nearCeiling))
          + bird_radius (bird nearCeiling)
        > real_of_int (height nearCeiling) - real_of_int (groundHeight 480)
   \<and> \<not> hitsAny (bird (loop 16 480 0 nearCeiling)) (pipes (loop 16 480 0 nearCeiling))
   \<and> bird_y (bird (loop 16 480 0 nearCeiling)) = 18
   \<and> bird_vy (bird (loop 16 480 0 nearCeiling)) = 0
   \<and> bird_alive (bird (loop 16 480 0 nearCeiling))
   \<and> running (loop 16 480 0 nearCeiling)
   \<and> 0 \<le> bird_y (bird (loop 16 480 0 nearCeiling))
            - bird_radius (bird (loop 16 480 0 nearCeiling))"
proof -
  have f: "height nearCeiling = 480" "bird_radius (bird nearCeiling) = 18"
    by (simp_all add: fixture_defs)
  have a: "bird_y (birdPhysics (frameDelta 16 nearCeiling) (bird nearCeiling))
        - bird_radius (bird nearCeiling) < 0"
    unfolding nearCeiling_y1 f by simp
  have b: "\<not> bird_y (birdPhysics (frameDelta 16 nearCeiling) (bird nearCeiling))
          + bird_radius (bird nearCeiling)
        > real_of_int (height nearCeiling) - real_of_int (groundHeight 480)"
    unfolding nearCeiling_y1 f by (simp add: groundHeight_480)
  from ceiling_clamp[of nearCeiling 16 480 0] a b nearCeiling_no_hit nearCeiling_facts
  have "bird_y (bird (loop 16 480 0 nearCeiling)) = 18
      \<and> bird_vy (bird (loop 16 480 0 nearCeiling)) = 0
      \<and> bird_alive (bird (loop 16 480 0 nearCeiling))
      \<and> running (loop 16 480 0 nearCeiling)
      \<and> 0 \<le> bird_y (bird (loop 16 480 0 nearCeiling))
               - bird_radius (bird (loop 16 480 0 nearCeiling))"
    by (simp add: f)
  with a b nearCeiling_no_hit nearCeiling_facts show ?thesis by blast
qed

text \<open>
  The claim as stated fails where a pipe stands at the bird's position: in
  \<open>ceilingOverPipe\<close> the integration step puts \<open>y - radius\<close> below zero and the ground
  condition does not hold; the bird is clamped to \<open>y = 18\<close>, \<open>vy = 0\<close>, its top edge at
  0 is above the pipe's gap top 100, and it dies and the session ends on that frame.
\<close>

theorem ceiling_clamp_counterexample:
  "running ceilingOverPipe \<and> bird_alive (bird ceilingOverPipe) \<and> \<not> paused ceilingOverPipe
   \<and> bird_y (birdPhysics (frameDelta 16 ceilingOverPipe) (bird ceilingOverPipe))
        - bird_radius (bird ceilingOverPipe) < 0
   \<and> \<not> bird_y (birdPhysics (frameDelta 16 ceilingOverPipe) (bird ceilingOverPipe))
          + bird_radius (bird ceilingOverPipe)
        > real_of_int (height ceilingOverPipe) - real_of_int (groundHeight 480)
   \<and> bird_y (bird (loop 16 480 0 ceilingOverPipe)) = 18
   \<and> bird_vy (bird (loop 16 480 0 ceilingOverPipe)) = 0
   \<and> \<not> bird_alive (bird (loop 16 480 0 ceilingOverPipe))
   \<and> \<not> running (loop 16 480 0 ceilingOverPipe)"
proof -
  have dead: "\<not> bird_alive (bird (loop 16 480 0 ceilingOverPipe))"
    using loop_alive_iff[OF ceilingOverPipe_facts, of 16 480 0] ceilingOverPipe_hit by blast
  then have stop: "\<not> running (loop 16 480 0 ceilingOverPipe)"
    using loop_running_iff[OF ceilingOverPipe_facts, of 16 480 0] by simp
  have f: "height ceilingOverPipe = 480" "bird_radius (bird ceilingOverPipe) = 18"
    by (simp_all add: fixture_defs)
  show ?thesis
    unfolding ceilingOverPipe_y1 f
    using dead stop ceilingOverPipe_facts ceilingOverPipe_y ceilingOverPipe_vy
    by (simp add: groundHeight_480)
qed

subsection \<open>The pipe collision test\<close>

text \<open>
  Claim C8: \<^verbatim>\<open>collidePipe\<close> is true exactly when the bird's horizontal extent
  \<open>[x - r, x + r]\<close> strictly overlaps the pipe's \<open>[x, x + PIPE_W]\<close> and the bird's top
  is above the gap top or its bottom below the gap bottom. For the pipe at \<open>x = 120\<close>
  with gap \<open>[100, 240]\<close> (width 60) and a bird at \<open>x = 120\<close> of radius 18 it is false at
  \<open>y = 170\<close> and true at \<open>y = 90\<close>.
\<close>

theorem collidePipe_iff:
  "(collidePipe b p \<longleftrightarrow>
      (bird_x b + bird_radius b > pipe_x p \<and> bird_x b - bird_radius b < pipe_x p + PIPE_W)
      \<and> (bird_y b - bird_radius b < pipe_top p \<or> bird_y b + bird_radius b > pipe_bottom p))
   \<and> PIPE_W = 60
   \<and> \<not> collidePipe (b\<lparr> bird_x := 120, bird_y := 170, bird_radius := 18 \<rparr>)
          (p\<lparr> pipe_x := 120, pipe_top := 100, pipe_bottom := 240 \<rparr>)
   \<and> collidePipe (b\<lparr> bird_x := 120, bird_y := 90, bird_radius := 18 \<rparr>)
        (p\<lparr> pipe_x := 120, pipe_top := 100, pipe_bottom := 240 \<rparr>)"
  by (auto simp: collidePipe_def Let_def PIPE_W_def)


subsection \<open>The best record over a run\<close>

lemma best_handlers [simp]:
  "best (doFlap t g) = best g" "best (togglePause t g) = best g"
  "best (readyClick t g) = best g" "best (reset cw ch t g) = best g"
  "best (start t g) = best g"
  by (simp_all add: doFlap_def togglePause_def readyClick_def reset_def start_def Let_def)

lemma loop_best_le: "best g \<le> best (loop now ch u g)"
proof (cases "paused g \<or> \<not> running g \<or> \<not> bird_alive (bird g)")
  case True
  then show ?thesis by (simp add: loop_idle)
next
  case False
  then show ?thesis by (simp add: loop_updates update_best)
qed

lemma loop_best_changes:
  assumes "best (loop now ch u g) \<noteq> best g"
  shows "running g \<and> bird_alive (bird g) \<and> \<not> paused g
       \<and> \<not> running (loop now ch u g) \<and> \<not> bird_alive (bird (loop now ch u g))
       \<and> best g < score (loop now ch u g) \<and> best (loop now ch u g) = score (loop now ch u g)"
proof (cases "paused g \<or> \<not> running g \<or> \<not> bird_alive (bird g)")
  case True
  with assms show ?thesis by (simp add: loop_idle)
next
  case False
  then have l: "loop now ch u g = update (frameDelta now g) ch u (g\<lparr> lastTime := now \<rparr>)"
    by (simp add: loop_updates)
  show ?thesis
    using assms False unfolding l
    by (auto simp: update_best update_running split: if_splits)
qed

lemma step_best_le: "best g \<le> best (step e g)"
  by (cases e) (simp_all add: loop_best_le)

lemma run_best_le: "best g \<le> best (run es g)"
proof (induction es arbitrary: g)
  case Nil
  show ?case by simp
next
  case (Cons e es)
  have "best g \<le> best (step e g)" by (rule step_best_le)
  also have "\<dots> \<le> best (run es (step e g))" by (rule Cons.IH)
  finally show ?case by simp
qed

text \<open>
  Claim C9: no event lowers the best record, so it never decreases over any run of
  events (flaps, frames, pause, ready, retry, start, over any number of sessions). An
  event changes it only if it is a frame on which a running session ends (the bird
  dies and \<open>running\<close> becomes false), that session's final score is strictly above the
  best record, and the new best record is that final score.
\<close>

theorem best_record_monotone:
  "best g \<le> best (step e g)
   \<and> best g \<le> best (run es g)
   \<and> (best (step e g) \<noteq> best g \<longrightarrow>
        (\<exists>now ch u. e = Frame now ch u)
        \<and> running g \<and> bird_alive (bird g) \<and> \<not> paused g
        \<and> \<not> running (step e g) \<and> \<not> bird_alive (bird (step e g))
        \<and> best g < score (step e g) \<and> best (step e g) = score (step e g))"
proof -
  have "(\<exists>now ch u. e = Frame now ch u)
        \<and> running g \<and> bird_alive (bird g) \<and> \<not> paused g
        \<and> \<not> running (step e g) \<and> \<not> bird_alive (bird (step e g))
        \<and> best g < score (step e g) \<and> best (step e g) = score (step e g)"
    if "best (step e g) \<noteq> best g"
  proof (cases e)
    case (Frame now ch u)
    with that loop_best_changes[of now ch u g] show ?thesis by simp
  qed (use that in simp_all)
  with step_best_le[of g e] run_best_le[of g es] show ?thesis by blast
qed

text \<open>\<open>lowFlight\<close> ends with score 3 over a best record of 2: the record becomes 3.\<close>

theorem best_record_monotone_witness:
  "running lowFlight \<and> bird_alive (bird lowFlight) \<and> \<not> paused lowFlight
   \<and> best lowFlight = 2
   \<and> best (step (Frame 16 480 0) lowFlight) = 3
   \<and> score (step (Frame 16 480 0) lowFlight) = 3
   \<and> \<not> running (step (Frame 16 480 0) lowFlight)
   \<and> \<not> bird_alive (bird (step (Frame 16 480 0) lowFlight))
   \<and> best lowFlight \<le> best (run [Frame 16 480 0, Flap 20] lowFlight)"
proof -
  have b: "best (step (Frame 16 480 0) lowFlight) \<noteq> best lowFlight"
    using lowFlight_crash by (simp add: fixture_defs)
  from best_record_monotone[of lowFlight "Frame 16 480 0" "[Frame 16 480 0, Flap 20]"] b
  show ?thesis using lowFlight_crash lowFlight_score by (simp add: fixture_defs)
qed

subsection \<open>The orientation angle\<close>






















end
